theory Spec2Isabelle
  imports Main
begin

section \<open>Strings and paths of the Go standard library\<close>

text \<open>
  A Go string is a sequence of bytes; \<^typ>\<open>string\<close> is a list of 8-bit characters, so
  the two agree. The program runs against a remote tree whose root is \<open>/\<close>, and the
  path functions below are those of \<open>path/filepath\<close> on a Unix host: the only path
  separator is the slash and there is no volume name.
\<close>

definition isPathSeparator :: "char \<Rightarrow> bool" where
  "isPathSeparator c = (c = CHR ''/'')"

text \<open>
  \<open>filepath.Ext\<close> scans the path from its last byte towards the first, stops at a
  separator, and returns the suffix that begins at the first dot it meets. The scan is
  a recursion over the reversed path; \<open>seen\<close> holds the bytes already passed, in their
  original order.
\<close>

fun extScan :: "string \<Rightarrow> string \<Rightarrow> string" where
  "extScan [] seen = []"
| "extScan (c # front) seen =
     (if isPathSeparator c then []
      else if c = CHR ''.'' then c # seen
      else extScan front (c # seen))"

definition Ext :: "string \<Rightarrow> string" where
  "Ext path = extScan (rev path) []"

text \<open>
  \<open>strings.ToLower\<close>. On a string of ASCII bytes it adds \<open>'a' - 'A'\<close> to every byte
  between \<open>A\<close> and \<open>Z\<close>. On any other string it decodes UTF-8 and maps every rune
  through \<open>unicode.ToLower\<close>. Two runes outside ASCII have an ASCII lower case there:
  U+0130 (bytes C4 B0) goes to \<open>i\<close> and U+212A (bytes E2 84 AA) goes to \<open>k\<close>; the
  lead bytes C4 and E2 are never continuation bytes, so these byte sequences always
  decode to those runes. Every other rune outside ASCII, and every invalid byte, comes
  out as bytes from 0x80 upwards. The model rewrites the ASCII letters and the two
  sequences and keeps every other byte as it is: it is exact on ASCII input, and on
  any input it is equal to a given ASCII string exactly when Go's result is, which is
  the only use the program makes of it.
\<close>

definition lowerByte :: "char \<Rightarrow> char" where
  "lowerByte c =
     (if of_char (CHR ''A'') \<le> (of_char c :: nat) \<and> (of_char c :: nat) \<le> of_char (CHR ''Z'')
      then char_of ((of_char c :: nat) + 32) else c)"

fun ToLower :: "string \<Rightarrow> string" where
  "ToLower [] = []"
| "ToLower (c # cs) =
     (if c = CHR 0xC4 \<and> take 1 cs = [CHR 0xB0] then CHR ''i'' # ToLower (drop 1 cs)
      else if c = CHR 0xE2 \<and> take 2 cs = [CHR 0x84, CHR 0xAA] then CHR ''k'' # ToLower (drop 2 cs)
      else lowerByte c # ToLower cs)"

section \<open>The image classifier\<close>

definition imageExts :: "string list" where
  "imageExts = [''.jpg'', ''.jpeg'', ''.png'', ''.gif'', ''.bmp'', ''.webp'', ''.tiff'', ''.tif'', ''.svg'']"

text \<open>The \<open>for ... range imageExts\<close> loop of \<open>isImageFile\<close>, with its early return.\<close>

fun matchExt :: "string \<Rightarrow> string list \<Rightarrow> bool" where
  "matchExt ext [] = False"
| "matchExt ext (imgExt # rest) = (if ext = imgExt then True else matchExt ext rest)"

definition isImageFile :: "string \<Rightarrow> bool" where
  "isImageFile filename = (let ext = ToLower (Ext filename) in matchExt ext imageExts)"

text \<open>
  The \<open>switch\<close> of \<open>getContentType\<close>: \<open>contentTypeCase\<close> is the list of its explicit
  \<open>case\<close> arms, in order, with \<open>None\<close> when no arm matches; \<open>getContentType\<close> adds the
  \<open>default\<close> arm.
\<close>

definition contentTypeCase :: "string \<Rightarrow> string option" where
  "contentTypeCase ext =
     (if ext = ''.jpg'' \<or> ext = ''.jpeg'' then Some ''image/jpeg''
      else if ext = ''.png'' then Some ''image/png''
      else if ext = ''.gif'' then Some ''image/gif''
      else if ext = ''.bmp'' then Some ''image/bmp''
      else if ext = ''.webp'' then Some ''image/webp''
      else if ext = ''.tiff'' \<or> ext = ''.tif'' then Some ''image/tiff''
      else if ext = ''.svg'' then Some ''image/svg+xml''
      else None)"

definition getContentType :: "string \<Rightarrow> string" where
  "getContentType filename =
     (let ext = ToLower (Ext filename)
      in case contentTypeCase ext of Some mime \<Rightarrow> mime | None \<Rightarrow> ''image/jpeg'')"

section \<open>Path joining and formatting helpers\<close>

text \<open>\<open>strings.Split(s, "/")\<close>: the elements between the slashes, empty ones included.\<close>

fun splitSlash :: "string \<Rightarrow> string list" where
  "splitSlash [] = [[]]"
| "splitSlash (c # cs) =
     (if isPathSeparator c then [] # splitSlash cs
      else (case splitSlash cs of [] \<Rightarrow> [[c]] | e # es \<Rightarrow> (c # e) # es))"

fun joinSlash :: "string list \<Rightarrow> string" where
  "joinSlash [] = []"
| "joinSlash [e] = e"
| "joinSlash (e # es) = e @ CHR ''/'' # joinSlash es"

text \<open>
  \<open>filepath.Clean\<close> reads the path one element at a time and writes the cleaned path:
  an empty element and \<open>.\<close> are skipped; \<open>..\<close> removes the element written last, when
  there is one that is not itself a kept \<open>..\<close>, and otherwise is dropped on a rooted
  path and kept on a relative one; any other element is written after a slash. \<open>out\<close>
  is the list of elements written so far.
\<close>

fun cleanElems :: "bool \<Rightarrow> string list \<Rightarrow> string list \<Rightarrow> string list" where
  "cleanElems rooted [] out = out"
| "cleanElems rooted (e # es) out =
     (if e = [] \<or> e = ''.'' then cleanElems rooted es out
      else if e = ''..'' then
        (if out \<noteq> [] \<and> last out \<noteq> ''..'' then cleanElems rooted es (butlast out)
         else if \<not> rooted then cleanElems rooted es (out @ [''..''])
         else cleanElems rooted es out)
      else cleanElems rooted es (out @ [e]))"

definition Clean :: "string \<Rightarrow> string" where
  "Clean path =
     (if path = [] then ''.''
      else let rooted = isPathSeparator (hd path);
               out = cleanElems rooted (splitSlash path) [];
               cleaned = (if rooted then ''/'' else []) @ joinSlash out
           in if cleaned = [] then ''.'' else cleaned)"

text \<open>
  \<open>filepath.Join\<close> of two elements: the elements from the first non-empty one on are
  joined with a slash and cleaned; with no non-empty element the result is empty.
\<close>

definition Join :: "string \<Rightarrow> string \<Rightarrow> string" where
  "Join a b =
     (if a \<noteq> [] then Clean (a @ ''/'' @ b)
      else if b \<noteq> [] then Clean b
      else [])"

text \<open>
  \<open>filepath.Base\<close>: the last element of the path, after trailing slashes are removed;
  \<open>.\<close> for the empty path and \<open>/\<close> for a path of slashes only.
\<close>

definition Base :: "string \<Rightarrow> string" where
  "Base path =
     (if path = [] then ''.''
      else let stripped = rev (dropWhile isPathSeparator (rev path));
               elem = rev (takeWhile (\<lambda>c. \<not> isPathSeparator c) (rev stripped))
           in if elem = [] then ''/'' else elem)"

definition newline :: string where
  "newline = [CHR 0x0A]"

text \<open>Decimal digits of a natural number, as \<open>%d\<close> and \<open>appendInt\<close> print them.\<close>

definition digit :: "nat \<Rightarrow> char" where
  "digit d = ''0123456789'' ! d"

function utoa :: "nat \<Rightarrow> string" where
  "utoa n = (if n < 10 then [digit n] else utoa (n div 10) @ [digit (n mod 10)])"
  by pat_completeness auto
termination
  by (relation "measure id") auto

text \<open>
  \<open>appendInt\<close> of package \<open>time\<close>: a minus sign for a negative number, then the digits,
  padded with zeros on the left to \<open>width\<close> digits.
\<close>

definition appendInt :: "int \<Rightarrow> nat \<Rightarrow> string" where
  "appendInt x width =
     (let u = utoa (nat \<bar>x\<bar>)
      in (if x < 0 then ''-'' else []) @ replicate (width - length u) (CHR ''0'') @ u)"

text \<open>
  A \<open>time.Time\<close> is modelled by what its methods \<open>Date\<close>, \<open>Clock\<close> and \<open>Zone\<close> report:
  the civil date, the clock and the zone offset in seconds east of UTC. \<open>Format\<close> reads
  nothing else of it.
\<close>

record Time =
  Year :: int
  Month :: nat
  Day :: nat
  Hour :: nat
  Minute :: nat
  Second :: nat
  ZoneOffset :: int

text \<open>Go's integer division truncates towards zero.\<close>

definition quo :: "int \<Rightarrow> int \<Rightarrow> int" where
  "quo a b = sgn a * sgn b * (\<bar>a\<bar> div \<bar>b\<bar>)"

text \<open>
  \<open>t.Format(time.RFC3339)\<close>, layout \<open>2006-01-02T15:04:05Z07:00\<close>: the zone is \<open>Z\<close>
  when the offset is zero, and otherwise a sign, the hours and the minutes of the offset.
\<close>

definition FormatRFC3339 :: "Time \<Rightarrow> string" where
  "FormatRFC3339 t =
     appendInt (Year t) 4 @ ''-'' @ appendInt (int (Month t)) 2 @ ''-'' @ appendInt (int (Day t)) 2
     @ ''T'' @ appendInt (int (Hour t)) 2 @ '':'' @ appendInt (int (Minute t)) 2
     @ '':'' @ appendInt (int (Second t)) 2
     @ (if ZoneOffset t = 0 then ''Z''
        else let zone = quo (ZoneOffset t) 60
             in (if zone < 0 then ''-'' else ''+'')
                @ appendInt (\<bar>zone\<bar> div 60) 2 @ '':'' @ appendInt (\<bar>zone\<bar> mod 60) 2)"

text \<open>
  \<open>rand.Intn(n)\<close> returns a number of the half-open interval from 0 to \<open>n\<close>, for
  \<open>n > 0\<close>, and panics otherwise; both calls of the program come after a return on
  length zero. \<open>r\<close> is the raw draw of the generator: as \<open>r\<close> ranges over the
  naturals, \<open>Intn r n\<close> ranges over exactly that interval.
\<close>

definition Intn :: "nat \<Rightarrow> nat \<Rightarrow> nat" where
  "Intn r n = r mod n"

section \<open>The remote tree accessor and the shared state\<close>

datatype error = Err (Error: string)

record FileInfo =
  Name :: string
  IsDir :: bool
  ModTime :: Time

record ImageInfo =
  Path :: string
  CreationDate :: Time

text \<open>
  The SFTP client is the pair of its two calls the program makes. An opened file is
  modelled by what \<open>io.ReadAll\<close> gets from it: an error or all its bytes.
\<close>

datatype File = File (ReadAll: "error + string")

record Client =
  ReadDir :: "string \<Rightarrow> error + FileInfo list"
  Open :: "string \<Rightarrow> error + File"

text \<open>
  The state the program acts on: the global slice \<open>directoriesWithImages\<close>, the lines it
  has printed on standard output (one element for each \<open>fmt.Printf\<close>), and the requests it
  has sent to the remote side, in order.
\<close>

datatype remoteOp = OpReadDir string | OpOpen string | OpReadAll string | OpClose string

record world =
  directoriesWithImages :: "string list"
  stdout :: "string list"
  remoteOps :: "remoteOp list"

definition Printf :: "string \<Rightarrow> world \<Rightarrow> world" where
  "Printf line w = w\<lparr>stdout := stdout w @ [line]\<rparr>"

definition remoteCall :: "remoteOp \<Rightarrow> world \<Rightarrow> world" where
  "remoteCall op w = w\<lparr>remoteOps := remoteOps w @ [op]\<rparr>"

section \<open>The directory indexer\<close>

text \<open>The first loop of \<open>listFoldersRecursively\<close>: it stops at the first image file.\<close>

fun hasImages :: "FileInfo list \<Rightarrow> bool" where
  "hasImages [] = False"
| "hasImages (entry # rest) =
     (if \<not> IsDir entry \<and> isImageFile (Name entry) then True else hasImages rest)"

text \<open>
  What the walk does at a directory once it is listed: the directory is appended to
  the index when the listing has an image file, and its name is printed.
\<close>

definition visit :: "string \<Rightarrow> string \<Rightarrow> FileInfo list \<Rightarrow> world \<Rightarrow> world" where
  "visit rootPath indent entries w1 =
     (if hasImages entries
      then Printf (indent @ Base rootPath @ ''/ (contains images)'' @ newline)
             (w1\<lparr>directoriesWithImages := directoriesWithImages w1 @ [rootPath]\<rparr>)
      else Printf (indent @ Base rootPath @ ''/'' @ newline) w1)"

text \<open>A \<open>for ... range\<close> loop whose body may fail to return.\<close>

fun forEntries :: "('a \<Rightarrow> 's \<Rightarrow> 's option) \<Rightarrow> 'a list \<Rightarrow> 's \<Rightarrow> 's option" where
  "forEntries body [] s = Some s"
| "forEntries body (entry # rest) s =
     (case body entry s of None \<Rightarrow> None | Some s' \<Rightarrow> forEntries body rest s')"

text \<open>
  \<open>listFoldersRecursively\<close> has no bound on its depth and no guard against a cycle of
  the remote tree, so it need not return. The first argument bounds the depth of the
  recursion: \<open>None\<close> says that the walk goes deeper than that, and a walk that returns
  \<open>None\<close> for every bound is a walk that never returns. Otherwise the result is the
  returned error (\<open>None\<close> for \<open>nil\<close>) and the state after the call.
\<close>

fun listFoldersRecursively ::
  "nat \<Rightarrow> Client \<Rightarrow> string \<Rightarrow> string \<Rightarrow> world \<Rightarrow> (error option \<times> world) option" where
  "listFoldersRecursively 0 client rootPath indent w = None"
| "listFoldersRecursively (Suc depth) client rootPath indent w =
     (let w1 = remoteCall (OpReadDir rootPath) w
      in case ReadDir client rootPath of
           Inl err \<Rightarrow> Some (Some err, w1)
         | Inr entries \<Rightarrow>
             let w2 = visit rootPath indent entries w1
             in (case forEntries
                        (\<lambda>entry s.
                           if IsDir entry then
                             (let fullPath = Join rootPath (Name entry)
                              in case listFoldersRecursively depth client fullPath (indent @ ''  '') s of
                                   None \<Rightarrow> None
                                 | Some (None, s') \<Rightarrow> Some s'
                                 | Some (Some err, s') \<Rightarrow>
                                     Some (Printf (''Error reading '' @ fullPath @ '': '' @ Error err @ newline) s'))
                           else Some s)
                        entries w2 of
                   None \<Rightarrow> None
                 | Some w3 \<Rightarrow> Some (None, w3)))"

text \<open>The body of the second loop, under a name.\<close>

definition descend :: "nat \<Rightarrow> Client \<Rightarrow> string \<Rightarrow> string \<Rightarrow> FileInfo \<Rightarrow> world \<Rightarrow> world option" where
  "descend depth client rootPath indent entry s =
     (if IsDir entry then
        (let fullPath = Join rootPath (Name entry)
         in case listFoldersRecursively depth client fullPath (indent @ ''  '') s of
              None \<Rightarrow> None
            | Some (None, s') \<Rightarrow> Some s'
            | Some (Some err, s') \<Rightarrow>
                Some (Printf (''Error reading '' @ fullPath @ '': '' @ Error err @ newline) s'))
      else Some s)"

text \<open>
  The part of \<open>main\<close> that builds the index: the walk from \<open>/\<close> on the empty state, the
  report of an error of the walk, and the count of the directories found.
\<close>

definition initialWorld :: world where
  "initialWorld = \<lparr>directoriesWithImages = [], stdout = [], remoteOps = []\<rparr>"

definition main :: "nat \<Rightarrow> Client \<Rightarrow> world option" where
  "main depth client =
     (case listFoldersRecursively depth client ''/'' [] initialWorld of
        None \<Rightarrow> None
      | Some (res, w) \<Rightarrow>
          let w1 = (case res of
                      Some err \<Rightarrow> Printf (''Error listing folders: '' @ Error err @ newline) w
                    | None \<Rightarrow> w)
          in Some (Printf (''Found '' @ utoa (length (directoriesWithImages w1))
                            @ '' directories with images'' @ newline) w1))"

section \<open>The request handler\<close>

text \<open>
  The response a \<open>gin.Context\<close> accumulates: the status, the header map and the body.
  A JSON body is kept as the object it encodes.
\<close>

datatype body = NoBody | JSONBody "(string \<times> string) list" | DataBody string

record Context =
  Status :: nat
  Headers :: "string \<rightharpoonup> string"
  Body :: body

text \<open>\<open>c.Header\<close> sets the header, and deletes it when the value is empty.\<close>

definition Header :: "string \<Rightarrow> string \<Rightarrow> Context \<Rightarrow> Context" where
  "Header key val c =
     (if val = [] then c\<lparr>Headers := (Headers c)(key := None)\<rparr>
      else c\<lparr>Headers := (Headers c)(key \<mapsto> val)\<rparr>)"

text \<open>
  \<open>c.JSON\<close> and \<open>c.Data\<close> set the status, set \<open>Content-Type\<close> unless the header map has
  one already, and write the body.
\<close>

definition writeContentType :: "string \<Rightarrow> Context \<Rightarrow> Context" where
  "writeContentType val c =
     (case Headers c ''Content-Type'' of
        None \<Rightarrow> c\<lparr>Headers := (Headers c)(''Content-Type'' \<mapsto> val)\<rparr>
      | Some _ \<Rightarrow> c)"

definition JSON :: "nat \<Rightarrow> (string \<times> string) list \<Rightarrow> Context \<Rightarrow> Context" where
  "JSON code obj c =
     (writeContentType ''application/json; charset=utf-8'' (c\<lparr>Status := code\<rparr>))\<lparr>Body := JSONBody obj\<rparr>"

definition Data :: "nat \<Rightarrow> string \<Rightarrow> string \<Rightarrow> Context \<Rightarrow> Context" where
  "Data code contentType bytes c =
     (writeContentType contentType (c\<lparr>Status := code\<rparr>))\<lparr>Body := DataBody bytes\<rparr>"

definition StatusOK :: nat where "StatusOK = 200"
definition StatusNotFound :: nat where "StatusNotFound = 404"
definition StatusInternalServerError :: nat where "StatusInternalServerError = 500"

text \<open>The loop of \<open>getRandomImage\<close> that collects the image files of the listing.\<close>

fun collectImages :: "string \<Rightarrow> FileInfo list \<Rightarrow> ImageInfo list" where
  "collectImages randomDir [] = []"
| "collectImages randomDir (entry # rest) =
     (if \<not> IsDir entry \<and> isImageFile (Name entry)
      then \<lparr>Path = Join randomDir (Name entry), CreationDate = ModTime entry\<rparr>
             # collectImages randomDir rest
      else collectImages randomDir rest)"

text \<open>
  \<open>getRandomImage\<close>, with the two raw draws of the random generator as arguments. The
  deferred \<open>file.Close()\<close> runs when the function returns after a successful \<open>Open\<close>.
\<close>

definition getRandomImage :: "Client \<Rightarrow> nat \<Rightarrow> nat \<Rightarrow> world \<Rightarrow> Context \<Rightarrow> world \<times> Context" where
  "getRandomImage client r1 r2 w c =
     (if length (directoriesWithImages w) = 0
      then (w, JSON StatusNotFound [(''error'', ''No directories with images found'')] c)
      else
        let randomDir = directoriesWithImages w ! Intn r1 (length (directoriesWithImages w));
            w1 = remoteCall (OpReadDir randomDir) w
        in case ReadDir client randomDir of
             Inl err \<Rightarrow>
               (w1, JSON StatusInternalServerError
                      [(''error'', ''Failed to read directory: '' @ Error err)] c)
           | Inr entries \<Rightarrow>
               let images = collectImages randomDir entries
               in if length images = 0
                  then (w1, JSON StatusNotFound
                              [(''error'', ''No images found in selected directory'')] c)
                  else
                    let randomImage = images ! Intn r2 (length images);
                        w2 = remoteCall (OpOpen (Path randomImage)) w1
                    in case Open client (Path randomImage) of
                         Inl err \<Rightarrow>
                           (w2, JSON StatusInternalServerError
                                  [(''error'', ''Failed to open image file: '' @ Error err)] c)
                       | Inr file \<Rightarrow>
                           let w3 = remoteCall (OpReadAll (Path randomImage)) w2;
                               w4 = remoteCall (OpClose (Path randomImage)) w3
                           in case ReadAll file of
                                Inl err \<Rightarrow>
                                  (w4, JSON StatusInternalServerError
                                         [(''error'', ''Failed to read image file: '' @ Error err)] c)
                              | Inr imageData \<Rightarrow>
                                  let c1 = Header ''Access-Control-Allow-Origin'' ''*'' c;
                                      c2 = Header ''Access-Control-Allow-Methods'' ''GET, OPTIONS'' c1;
                                      c3 = Header ''Access-Control-Allow-Headers'' ''Content-Type'' c2;
                                      contentType = getContentType (Path randomImage);
                                      c4 = Header ''Content-Type'' contentType c3;
                                      c5 = Header ''X-Creation-Date''
                                             (FormatRFC3339 (CreationDate randomImage)) c4
                                  in (w4, Data StatusOK contentType imageData c5))"

section \<open>The notions the properties are stated with\<close>


text \<open>The recognized set of extensions and their canonical MIME types.\<close>

definition recognized :: "string set" where
  "recognized = {''.jpg'', ''.jpeg'', ''.png'', ''.gif'', ''.bmp'', ''.webp'', ''.tiff'', ''.tif'', ''.svg''}"


text \<open>
  The directories of the remote tree under \<open>rootPath\<close>: the root, and every
  subdirectory entry of a directory of the tree whose listing succeeds, under the path
  the walk gives it.
\<close>

inductive_set dirs :: "Client \<Rightarrow> string \<Rightarrow> string set" for client :: Client and rootPath :: string where
  root: "rootPath \<in> dirs client rootPath"
| sub: "p \<in> dirs client rootPath \<Longrightarrow> ReadDir client p = Inr entries \<Longrightarrow> entry \<in> set entries \<Longrightarrow>
        IsDir entry \<Longrightarrow> Join p (Name entry) \<in> dirs client rootPath"

text \<open>The directory \<open>p\<close> can be listed and has a direct entry that is an image file.\<close>

definition holdsImage :: "Client \<Rightarrow> string \<Rightarrow> bool" where
  "holdsImage client p =
     (case ReadDir client p of
        Inl err \<Rightarrow> False
      | Inr entries \<Rightarrow> \<exists>entry \<in> set entries. \<not> IsDir entry \<and> isImageFile (Name entry))"

text \<open>
  The tree under \<open>p\<close> nests at most \<open>d\<close> directories deep, \<open>p\<close> included. A tree that
  is finite and has no cycle is within some depth; a tree with a cycle is within none.
  A directory whose listing fails has nothing below it.
\<close>

fun withinDepth :: "nat \<Rightarrow> Client \<Rightarrow> string \<Rightarrow> bool" where
  "withinDepth 0 client p = False"
| "withinDepth (Suc d) client p =
     (case ReadDir client p of
        Inl err \<Rightarrow> True
      | Inr entries \<Rightarrow> \<forall>entry \<in> set entries. IsDir entry \<longrightarrow> withinDepth d client (Join p (Name entry)))"

text \<open>The directories of the tree that hold an image.\<close>

definition found :: "Client \<Rightarrow> string \<Rightarrow> string set" where
  "found client rootPath = {p \<in> dirs client rootPath. holdsImage client p}"

text \<open>What the walk returns at \<open>rootPath\<close>: the error of its listing, or \<open>nil\<close>.\<close>

definition returned :: "Client \<Rightarrow> string \<Rightarrow> error option" where
  "returned client rootPath =
     (case ReadDir client rootPath of Inl err \<Rightarrow> Some err | Inr entries \<Rightarrow> None)"

text \<open>
  The walk is right on every tree within depth \<open>d\<close>: it returns, and the index gains
  the directories that hold an image. This is the statement proved by induction on \<open>d\<close>.
\<close>

definition walks :: "nat \<Rightarrow> Client \<Rightarrow> bool" where
  "walks d client \<longleftrightarrow>
     (\<forall>p indent w. withinDepth d client p \<longrightarrow>
        (\<exists>w'. listFoldersRecursively d client p indent w = Some (returned client p, w')
            \<and> set (directoriesWithImages w') = set (directoriesWithImages w) \<union> found client p))"

text \<open>
  The image filter of a listing, the directory that the first draw picks from the index
  and the entry that the second draw picks from the filter.
\<close>

definition imageEntries :: "FileInfo list \<Rightarrow> FileInfo list" where
  "imageEntries entries = filter (\<lambda>entry. \<not> IsDir entry \<and> isImageFile (Name entry)) entries"

definition chosenDir :: "world \<Rightarrow> nat \<Rightarrow> string" where
  "chosenDir w r1 = directoriesWithImages w ! Intn r1 (length (directoriesWithImages w))"

definition chosenEntry :: "FileInfo list \<Rightarrow> nat \<Rightarrow> FileInfo" where
  "chosenEntry entries r2 = imageEntries entries ! Intn r2 (length (imageEntries entries))"

section \<open>Example trees\<close>

definition stamp :: Time where
  "stamp = \<lparr>Year = 2024, Month = 3, Day = 9, Hour = 14, Minute = 5, Second = 7, ZoneOffset = 3600\<rparr>"

definition fileEntry :: "string \<Rightarrow> FileInfo" where
  "fileEntry n = \<lparr>Name = n, IsDir = False, ModTime = stamp\<rparr>"

definition dirEntry :: "string \<Rightarrow> FileInfo" where
  "dirEntry n = \<lparr>Name = n, IsDir = True, ModTime = stamp\<rparr>"

text \<open>A remote tree given by the table of its listings; any other path cannot be listed.\<close>

definition listing :: "(string \<times> FileInfo list) list \<Rightarrow> string \<Rightarrow> error + FileInfo list" where
  "listing table p =
     (case map_of table p of
        Some entries \<Rightarrow> Inr entries
      | None \<Rightarrow> Inl (Err ''file does not exist''))"

text \<open>The tree of the specification's scenario: \<open>/a\<close>, \<open>/b\<close> and the empty \<open>/c\<close>.\<close>

definition specTree :: Client where
  "specTree =
     \<lparr>ReadDir = listing
        [(''/'', [dirEntry ''a'', dirEntry ''b'', dirEntry ''c'']),
         (''/a'', [fileEntry ''photo.JPG'', fileEntry ''notes.txt'']),
         (''/b'', [fileEntry ''img.png'']),
         (''/c'', [])],
      Open = (\<lambda>p. Inr (File (Inr (''bytes of '' @ p))))\<rparr>"

text \<open>A tree with a subdirectory \<open>/locked\<close> that cannot be listed, between two that can.\<close>

definition partTree :: Client where
  "partTree =
     \<lparr>ReadDir = listing
        [(''/'', [dirEntry ''a'', dirEntry ''locked'', dirEntry ''b'', fileEntry ''readme.txt'']),
         (''/a'', [fileEntry ''photo.JPG'']),
         (''/b'', [fileEntry ''img.png'', dirEntry ''deep'']),
         (''/b/deep'', [fileEntry ''x.gif''])],
      Open = (\<lambda>p. Inr (File (Inr (''bytes of '' @ p))))\<rparr>"

text \<open>A remote side that answers every request with an error.\<close>

definition deadTree :: Client where
  "deadTree =
     \<lparr>ReadDir = (\<lambda>p. Inl (Err ''connection lost'')),
      Open = (\<lambda>p. Inl (Err ''connection lost''))\<rparr>"

text \<open>
  An index of five directories and a remote side on which the first is gone, the
  second has no image left, the third has an image that cannot be opened, the fourth
  has one that cannot be read, and the fifth is in order.
\<close>

definition shelf :: Client where
  "shelf =
     \<lparr>ReadDir = listing
        [(''/empty'', [fileEntry ''notes.txt'', dirEntry ''sub'']),
         (''/locked'', [fileEntry ''a.png'']),
         (''/broken'', [fileEntry ''b.gif'']),
         (''/ok'', [fileEntry ''notes.txt'', dirEntry ''x'', fileEntry ''photo.JPG''])],
      Open = (\<lambda>p. if p = ''/locked/a.png'' then Inl (Err ''permission denied'')
                   else if p = ''/broken/b.gif'' then Inr (File (Inl (Err ''connection lost'')))
                   else Inr (File (Inr (''bytes of '' @ p))))\<rparr>"

text \<open>A root directory whose one entry is a file named \<open>.jpg\<close>.\<close>

definition hiddenTree :: Client where
  "hiddenTree =
     \<lparr>ReadDir = listing [(''/'', [fileEntry ''.jpg''])],
      Open = (\<lambda>p. Inr (File (Inr (''bytes of '' @ p))))\<rparr>"

definition shelfWorld :: world where
  "shelfWorld =
     \<lparr>directoriesWithImages = [''/gone'', ''/empty'', ''/locked'', ''/broken'', ''/ok''],
      stdout = [], remoteOps = []\<rparr>"

definition freshContext :: Context where
  "freshContext = \<lparr>Status = 200, Headers = Map.empty, Body = NoBody\<rparr>"

section \<open>The extension of a filename\<close>

lemma matchExt_set: "matchExt ext exts \<longleftrightarrow> ext \<in> set exts"
  by (induction exts) auto






lemma isImageFile_Ext: "isImageFile filename \<longleftrightarrow> ToLower (Ext filename) \<in> recognized"
  by (simp add: isImageFile_def matchExt_set imageExts_def recognized_def Let_def)


text \<open>On ASCII input \<open>ToLower\<close> is the byte-wise lower case.\<close>

lemma ToLower_ascii: "\<forall>c \<in> set s. (of_char c :: nat) < 128 \<Longrightarrow> ToLower s = map lowerByte s"
  by (induction s) auto

text \<open>The filenames of the specification's scenario.\<close>

lemma scenario_filenames:
  "isImageFile ''photo.JPG'' \<and> getContentType ''photo.JPG'' = ''image/jpeg''
   \<and> isImageFile ''img.png'' \<and> \<not> isImageFile ''notes.txt''"
  by code_simp

section \<open>The walk and the tree\<close>

lemma walk_Suc:
  "listFoldersRecursively (Suc depth) client rootPath indent w =
     (case ReadDir client rootPath of
        Inl err \<Rightarrow> Some (Some err, remoteCall (OpReadDir rootPath) w)
      | Inr entries \<Rightarrow>
          (case forEntries (descend depth client rootPath indent) entries
                  (visit rootPath indent entries (remoteCall (OpReadDir rootPath) w)) of
             None \<Rightarrow> None
           | Some w3 \<Rightarrow> Some (None, w3)))"
proof -
  have "descend depth client rootPath indent =
        (\<lambda>entry s.
           if IsDir entry then
             (let fullPath = Join rootPath (Name entry)
              in case listFoldersRecursively depth client fullPath (indent @ ''  '') s of
                   None \<Rightarrow> None
                 | Some (None, s') \<Rightarrow> Some s'
                 | Some (Some err, s') \<Rightarrow>
                     Some (Printf (''Error reading '' @ fullPath @ '': '' @ Error err @ newline) s'))
           else Some s)"
    by (intro ext) (simp add: descend_def)
  then show ?thesis
    by (simp add: visit_def Let_def split: sum.split)
qed

declare listFoldersRecursively.simps(2) [simp del]

lemma index_Printf [simp]: "directoriesWithImages (Printf line w) = directoriesWithImages w"
  by (simp add: Printf_def)

lemma index_remoteCall [simp]: "directoriesWithImages (remoteCall op w) = directoriesWithImages w"
  by (simp add: remoteCall_def)

lemma hasImages_iff:
  "hasImages entries \<longleftrightarrow> (\<exists>entry \<in> set entries. \<not> IsDir entry \<and> isImageFile (Name entry))"
  by (induction entries) auto

lemma index_visit:
  "directoriesWithImages (visit rootPath indent entries w) =
     directoriesWithImages w @ (if hasImages entries then [rootPath] else [])"
  by (simp add: visit_def)

lemma dirs_trans:
  "q \<in> dirs client p \<Longrightarrow> p \<in> dirs client rootPath \<Longrightarrow> q \<in> dirs client rootPath"
  by (induction rule: dirs.induct) (auto intro: dirs.sub)

lemma dirs_failed: "ReadDir client p = Inl err \<Longrightarrow> dirs client p = {p}"
proof -
  assume f: "ReadDir client p = Inl err"
  have "q \<in> dirs client p \<Longrightarrow> q = p" for q
    by (induction rule: dirs.induct) (use f in auto)
  then show ?thesis by (auto intro: dirs.root)
qed

lemma dirs_listed:
  assumes "ReadDir client p = Inr entries"
  shows "dirs client p =
           insert p (\<Union>entry \<in> {e \<in> set entries. IsDir e}. dirs client (Join p (Name entry)))"
proof (intro set_eqI iffI)
  fix q assume "q \<in> dirs client p"
  then show "q \<in> insert p (\<Union>entry \<in> {e \<in> set entries. IsDir e}. dirs client (Join p (Name entry)))"
  proof (induction rule: dirs.induct)
    case root
    then show ?case by simp
  next
    case (sub q es entry)
    from sub.IH show ?case
    proof
      assume "q = p"
      with sub.hyps assms have "entry \<in> {e \<in> set entries. IsDir e}" by simp
      moreover have "Join q (Name entry) \<in> dirs client (Join p (Name entry))"
        using \<open>q = p\<close> by (simp add: dirs.root)
      ultimately show ?thesis by blast
    next
      assume "q \<in> (\<Union>entry \<in> {e \<in> set entries. IsDir e}. dirs client (Join p (Name entry)))"
      then obtain e where e: "e \<in> {e \<in> set entries. IsDir e}" and q: "q \<in> dirs client (Join p (Name e))"
        by blast
      from q sub.hyps have "Join q (Name entry) \<in> dirs client (Join p (Name e))"
        by (auto intro: dirs.sub)
      with e show ?thesis by blast
    qed
  qed
next
  fix q assume "q \<in> insert p (\<Union>entry \<in> {e \<in> set entries. IsDir e}. dirs client (Join p (Name entry)))"
  then show "q \<in> dirs client p"
  proof
    assume "q = p" then show ?thesis by (simp add: dirs.root)
  next
    assume "q \<in> (\<Union>entry \<in> {e \<in> set entries. IsDir e}. dirs client (Join p (Name entry)))"
    then obtain e where e: "e \<in> set entries" "IsDir e" and q: "q \<in> dirs client (Join p (Name e))"
      by blast
    have "Join p (Name e) \<in> dirs client p"
      using dirs.sub [OF dirs.root assms e] .
    with q show ?thesis by (rule dirs_trans)
  qed
qed

lemma found_failed: "ReadDir client p = Inl err \<Longrightarrow> found client p = {}"
  by (auto simp: found_def dirs_failed holdsImage_def)

lemma found_listed:
  "ReadDir client p = Inr entries \<Longrightarrow>
   found client p = (if hasImages entries then {p} else {})
     \<union> (\<Union>entry \<in> {e \<in> set entries. IsDir e}. found client (Join p (Name entry)))"
  by (auto simp: found_def dirs_listed holdsImage_def hasImages_iff)

lemma loop_index:
  assumes "walks d client"
  shows "\<forall>entry \<in> set entries. IsDir entry \<longrightarrow> withinDepth d client (Join p (Name entry)) \<Longrightarrow>
         \<exists>s'. forEntries (descend d client p indent) entries s = Some s'
            \<and> set (directoriesWithImages s') = set (directoriesWithImages s)
                \<union> (\<Union>entry \<in> {e \<in> set entries. IsDir e}. found client (Join p (Name entry)))"
proof (induction entries arbitrary: s)
  case Nil
  then show ?case by simp
next
  case (Cons e es)
  show ?case
  proof (cases "IsDir e")
    case False
    then have "descend d client p indent e s = Some s" by (simp add: descend_def)
    moreover from Cons.prems have "\<forall>entry \<in> set es. IsDir entry \<longrightarrow> withinDepth d client (Join p (Name entry))"
      by simp
    from Cons.IH [OF this, of s] obtain s' where
      "forEntries (descend d client p indent) es s = Some s'"
      "set (directoriesWithImages s') = set (directoriesWithImages s)
                \<union> (\<Union>entry \<in> {e \<in> set es. IsDir e}. found client (Join p (Name entry)))" by blast
    ultimately show ?thesis using False by auto
  next
    case True
    with Cons.prems have "withinDepth d client (Join p (Name e))" by simp
    with assms obtain s1 where
      w: "listFoldersRecursively d client (Join p (Name e)) (indent @ ''  '') s = Some (returned client (Join p (Name e)), s1)"
      and i: "set (directoriesWithImages s1) = set (directoriesWithImages s) \<union> found client (Join p (Name e))"
      unfolding walks_def by blast
    define s2 where "s2 = (case returned client (Join p (Name e)) of None \<Rightarrow> s1
       | Some err \<Rightarrow> Printf (''Error reading '' @ Join p (Name e) @ '': '' @ Error err @ newline) s1)"
    have d: "descend d client p indent e s = Some s2"
      using True w by (simp add: descend_def s2_def split: option.split)
    have i2: "directoriesWithImages s2 = directoriesWithImages s1"
      by (simp add: s2_def split: option.split)
    from Cons.prems have "\<forall>entry \<in> set es. IsDir entry \<longrightarrow> withinDepth d client (Join p (Name entry))"
      by simp
    from Cons.IH [OF this, of s2] obtain s' where
      "forEntries (descend d client p indent) es s2 = Some s'"
      "set (directoriesWithImages s') = set (directoriesWithImages s2)
                \<union> (\<Union>entry \<in> {e \<in> set es. IsDir e}. found client (Join p (Name entry)))" by blast
    with d i i2 True show ?thesis by auto
  qed
qed

lemma walks_all: "walks d client"
proof (induction d)
  case 0
  then show ?case by (simp add: walks_def)
next
  case (Suc d)
  show ?case
    unfolding walks_def
  proof (intro allI impI)
    fix p indent w
    assume wd: "withinDepth (Suc d) client p"
    show "\<exists>w'. listFoldersRecursively (Suc d) client p indent w = Some (returned client p, w')
            \<and> set (directoriesWithImages w') = set (directoriesWithImages w) \<union> found client p"
    proof (cases "ReadDir client p")
      case (Inl err)
      then show ?thesis by (simp add: walk_Suc returned_def found_failed)
    next
      case (Inr entries)
      with wd have "\<forall>entry \<in> set entries. IsDir entry \<longrightarrow> withinDepth d client (Join p (Name entry))"
        by simp
      from loop_index [OF Suc this, of indent "visit p indent entries (remoteCall (OpReadDir p) w)"]
      obtain s' where
        "forEntries (descend d client p indent) entries (visit p indent entries (remoteCall (OpReadDir p) w)) = Some s'"
        "set (directoriesWithImages s') = set (directoriesWithImages (visit p indent entries (remoteCall (OpReadDir p) w)))
                \<union> (\<Union>entry \<in> {e \<in> set entries. IsDir e}. found client (Join p (Name entry)))"
        by blast
      with Inr show ?thesis
        by (auto simp: walk_Suc returned_def found_listed [OF Inr] index_visit)
    qed
  qed
qed

lemma loop_deeper:
  assumes "\<And>q ind s r. listFoldersRecursively d client q ind s = Some r \<Longrightarrow>
             listFoldersRecursively (Suc d) client q ind s = Some r"
  shows "forEntries (descend d client p indent) entries s = Some s' \<Longrightarrow>
         forEntries (descend (Suc d) client p indent) entries s = Some s'"
proof (induction entries arbitrary: s)
  case Nil
  then show ?case by simp
next
  case (Cons e es)
  from Cons.prems obtain s1 where
    b: "descend d client p indent e s = Some s1" and
    r: "forEntries (descend d client p indent) es s1 = Some s'"
    by (auto split: option.splits)
  have "descend (Suc d) client p indent e s = Some s1"
  proof (cases "IsDir e")
    case False
    with b show ?thesis by (simp add: descend_def)
  next
    case True
    with b obtain r where
      w: "listFoldersRecursively d client (Join p (Name e)) (indent @ ''  '') s = Some r"
      by (cases "listFoldersRecursively d client (Join p (Name e)) (indent @ ''  '') s")
         (auto simp: descend_def)
    from assms [OF w] w b True show ?thesis
      by (simp add: descend_def)
  qed
  with Cons.IH [OF r] show ?case by simp
qed

lemma walk_deeper:
  "listFoldersRecursively d client p indent w = Some r \<Longrightarrow>
   listFoldersRecursively (Suc d) client p indent w = Some r"
proof (induction d arbitrary: p indent w r)
  case 0
  then show ?case by simp
next
  case (Suc d)
  show ?case
  proof (cases "ReadDir client p")
    case (Inl err)
    with Suc.prems show ?thesis by (simp add: walk_Suc)
  next
    case (Inr entries)
    with Suc.prems obtain w3 where
      l: "forEntries (descend d client p indent) entries
            (visit p indent entries (remoteCall (OpReadDir p) w)) = Some w3"
      and r: "r = (None, w3)"
      by (auto simp: walk_Suc split: option.splits)
    from loop_deeper [OF Suc.IH l]
    show ?thesis using Inr r by (simp add: walk_Suc [of "Suc d"])
  qed
qed

lemma walk_any_deeper:
  "listFoldersRecursively d client p indent w = Some r \<Longrightarrow> d \<le> n \<Longrightarrow>
   listFoldersRecursively n client p indent w = Some r"
proof (induction "n - d" arbitrary: n)
  case 0
  then show ?case by simp
next
  case (Suc k)
  then obtain m where n: "n = Suc m" and "k = m - d" and "d \<le> m"
    by (cases n) auto
  with Suc have "listFoldersRecursively m client p indent w = Some r" by blast
  then show ?case unfolding n by (rule walk_deeper)
qed

lemma walk_index:
  assumes "withinDepth d client rootPath"
  shows "\<exists>w'. (\<forall>n\<ge>d. listFoldersRecursively n client rootPath indent w = Some (returned client rootPath, w'))
            \<and> set (directoriesWithImages w') = set (directoriesWithImages w) \<union> found client rootPath"
proof -
  from walks_all [of d client] assms obtain w' where
    w: "listFoldersRecursively d client rootPath indent w = Some (returned client rootPath, w')"
    and i: "set (directoriesWithImages w') = set (directoriesWithImages w) \<union> found client rootPath"
    unfolding walks_def by blast
  from w have "\<forall>n\<ge>d. listFoldersRecursively n client rootPath indent w = Some (returned client rootPath, w')"
    by (blast intro: walk_any_deeper)
  with i show ?thesis by blast
qed

section \<open>Joined paths keep the extension\<close>











lemma collectImages_filter:
  "collectImages randomDir entries =
     map (\<lambda>entry. \<lparr>Path = Join randomDir (Name entry), CreationDate = ModTime entry\<rparr>)
       (filter (\<lambda>entry. \<not> IsDir entry \<and> isImageFile (Name entry)) entries)"
  by (induction entries) auto



section \<open>The steps of the handler\<close>

lemma collectImages_entries:
  "collectImages randomDir entries =
     map (\<lambda>entry. \<lparr>Path = Join randomDir (Name entry), CreationDate = ModTime entry\<rparr>)
       (imageEntries entries)"
  by (simp add: collectImages_filter imageEntries_def)

lemma chosen_image:
  assumes "imageEntries entries \<noteq> []"
  shows "collectImages randomDir entries ! Intn r2 (length (collectImages randomDir entries))
           = \<lparr>Path = Join randomDir (Name (chosenEntry entries r2)),
               CreationDate = ModTime (chosenEntry entries r2)\<rparr>"
proof -
  from assms have "Intn r2 (length (imageEntries entries)) < length (imageEntries entries)"
    by (simp add: Intn_def)
  then show ?thesis by (simp add: collectImages_entries chosenEntry_def)
qed


lemma chosenDir_indexed:
  "directoriesWithImages w \<noteq> [] \<Longrightarrow> chosenDir w r1 \<in> set (directoriesWithImages w)"
  by (simp add: chosenDir_def Intn_def)

lemma JSON_sel [simp]:
  "Status (JSON code obj c) = code" "Body (JSON code obj c) = JSONBody obj"
  by (simp_all add: JSON_def writeContentType_def split: option.split)

lemma Data_sel [simp]:
  "Status (Data code contentType bytes c) = code" "Body (Data code contentType bytes c) = DataBody bytes"
  by (simp_all add: Data_def writeContentType_def split: option.split)



lemma handler_listed:
  assumes "directoriesWithImages w \<noteq> []" and "ReadDir client (chosenDir w r1) = Inr entries"
    and "imageEntries entries \<noteq> []"
  shows "getRandomImage client r1 r2 w c =
     (let path = Join (chosenDir w r1) (Name (chosenEntry entries r2));
          w2 = remoteCall (OpOpen path) (remoteCall (OpReadDir (chosenDir w r1)) w)
      in case Open client path of
           Inl err \<Rightarrow>
             (w2, JSON StatusInternalServerError
                    [(''error'', ''Failed to open image file: '' @ Error err)] c)
         | Inr file \<Rightarrow>
             let w4 = remoteCall (OpClose path) (remoteCall (OpReadAll path) w2)
             in case ReadAll file of
                  Inl err \<Rightarrow>
                    (w4, JSON StatusInternalServerError
                           [(''error'', ''Failed to read image file: '' @ Error err)] c)
                | Inr imageData \<Rightarrow>
                    (w4, Data StatusOK (getContentType path) imageData
                           (Header ''X-Creation-Date'' (FormatRFC3339 (ModTime (chosenEntry entries r2)))
                             (Header ''Content-Type'' (getContentType path)
                               (Header ''Access-Control-Allow-Headers'' ''Content-Type''
                                 (Header ''Access-Control-Allow-Methods'' ''GET, OPTIONS''
                                   (Header ''Access-Control-Allow-Origin'' ''*'' c)))))))"
proof -
  from assms(3) have ne: "collectImages (chosenDir w r1) entries \<noteq> []"
    by (simp add: collectImages_entries)
  show ?thesis
    unfolding getRandomImage_def
    using assms(1,2) ne chosen_image [OF assms(3), of "chosenDir w r1" r2]
    by (simp add: Let_def chosenDir_def [symmetric] split: sum.split)
qed

lemma imageExts_bare: "ext \<in> set imageExts \<Longrightarrow> Ext ext = ext \<and> isImageFile ext"
  by (auto simp: imageExts_def isImageFile_Ext recognized_def Ext_def isPathSeparator_def lowerByte_def)

section \<open>Properties of the classifier\<close>



text \<open>
  C7. \<open>isImageFile\<close> and \<open>getContentType\<close> have the same domain: an extension is in the
  list that \<open>isImageFile\<close> searches exactly when an explicit \<open>case\<close> of the \<open>switch\<close> of
  \<open>getContentType\<close> handles it, and so a filename is an image exactly when
  \<open>getContentType\<close> does not take its \<open>default\<close> arm on it.
\<close>

theorem classifier_domains_agree:
  "(matchExt ext imageExts \<longleftrightarrow> contentTypeCase ext \<noteq> None)
   \<and> (isImageFile filename \<longleftrightarrow> contentTypeCase (ToLower (Ext filename)) \<noteq> None)"
  by (simp add: isImageFile_def Let_def matchExt_set imageExts_def contentTypeCase_def)

text \<open>
  C10. A filename that is nothing but a recognized extension, such as \<open>.jpg\<close>, is its
  own extension and is classified as an image; a directory with such a file entry
  counts as having images for the walk, and the handler takes the entry into the
  images it chooses from.
\<close>

theorem bare_extension_is_image:
  assumes "ext \<in> set imageExts"
  shows "Ext ext = ext \<and> isImageFile ext
         \<and> (\<forall>entries entry. entry \<in> set entries \<and> \<not> IsDir entry \<and> Name entry = ext \<longrightarrow>
              hasImages entries
              \<and> \<lparr>Path = Join dir ext, CreationDate = ModTime entry\<rparr> \<in> set (collectImages dir entries))"
  using imageExts_bare [OF assms]
  by (auto simp: hasImages_iff collectImages_filter)

theorem bare_extension_is_image_witness:
  "''.jpg'' \<in> set imageExts
   \<and> Ext ''.jpg'' = ''.jpg'' \<and> isImageFile ''.jpg''
   \<and> hasImages [dirEntry ''x'', fileEntry ''.jpg'']
   \<and> \<lparr>Path = Join ''/a'' ''.jpg'', CreationDate = ModTime (fileEntry ''.jpg'')\<rparr>
        \<in> set (collectImages ''/a'' [dirEntry ''x'', fileEntry ''.jpg''])
   \<and> listFoldersRecursively 1 hiddenTree ''/'' [] initialWorld
       = Some (None, \<lparr>directoriesWithImages = [''/''],
                       stdout = [''// (contains images)'' @ newline],
                       remoteOps = [OpReadDir ''/'']\<rparr>)
   \<and> Status (snd (getRandomImage hiddenTree 0 0
                    \<lparr>directoriesWithImages = [''/''], stdout = [], remoteOps = []\<rparr> freshContext)) = 200
   \<and> Body (snd (getRandomImage hiddenTree 0 0
                    \<lparr>directoriesWithImages = [''/''], stdout = [], remoteOps = []\<rparr> freshContext))
       = DataBody ''bytes of /.jpg''"
proof -
  have h: "''.jpg'' \<in> set imageExts" by (simp add: imageExts_def)
  have e: "fileEntry ''.jpg'' \<in> set [dirEntry ''x'', fileEntry ''.jpg'']
           \<and> \<not> IsDir (fileEntry ''.jpg'') \<and> Name (fileEntry ''.jpg'') = ''.jpg''"
    by (simp add: fileEntry_def)
  have w: "listFoldersRecursively 1 hiddenTree ''/'' [] initialWorld
       = Some (None, \<lparr>directoriesWithImages = [''/''],
                       stdout = [''// (contains images)'' @ newline],
                       remoteOps = [OpReadDir ''/'']\<rparr>)"
    by code_simp
  have s: "Status (snd (getRandomImage hiddenTree 0 0
                    \<lparr>directoriesWithImages = [''/''], stdout = [], remoteOps = []\<rparr> freshContext)) = 200"
    by code_simp
  have b: "Body (snd (getRandomImage hiddenTree 0 0
                    \<lparr>directoriesWithImages = [''/''], stdout = [], remoteOps = []\<rparr> freshContext))
       = DataBody ''bytes of /.jpg''"
    by code_simp
  from bare_extension_is_image [OF h, of "''/a''"] e h w s b show ?thesis by blast
qed

section \<open>Properties of the directory indexer\<close>



text \<open>
  C2. On a tree without a cycle whose root can be listed, \<open>listFoldersRecursively\<close>
  returns with no error whichever listings below the root fail, and the index then
  holds, besides what it held before, the paths of exactly the directories that can be
  reached through listings that succeed and that have a direct image file: a
  subdirectory that cannot be listed takes nothing away from the others.
\<close>

theorem index_despite_failed_listings:
  assumes "withinDepth d client rootPath" and "ReadDir client rootPath = Inr entries"
  shows "\<exists>w'. (\<forall>n\<ge>d. listFoldersRecursively n client rootPath indent w = Some (None, w'))
            \<and> set (directoriesWithImages w')
                = set (directoriesWithImages w) \<union> {p \<in> dirs client rootPath. holdsImage client p}"
  using walk_index [OF assms(1), of indent w] assms(2)
  by (simp add: found_def returned_def)

theorem index_despite_failed_listings_witness:
  "withinDepth 3 partTree ''/''
   \<and> ReadDir partTree ''/''
       = Inr [dirEntry ''a'', dirEntry ''locked'', dirEntry ''b'', fileEntry ''readme.txt'']
   \<and> ReadDir partTree ''/locked'' = Inl (Err ''file does not exist'')
   \<and> (\<exists>w'. (\<forall>n\<ge>3. listFoldersRecursively n partTree ''/'' [] initialWorld = Some (None, w'))
          \<and> set (directoriesWithImages w')
              = set (directoriesWithImages initialWorld) \<union> {p \<in> dirs partTree ''/''. holdsImage partTree p}
          \<and> directoriesWithImages w' = [''/a'', ''/b'', ''/b/deep''])"
proof -
  have h1: "withinDepth 3 partTree ''/''" by code_simp
  have h2: "ReadDir partTree ''/''
              = Inr [dirEntry ''a'', dirEntry ''locked'', dirEntry ''b'', fileEntry ''readme.txt'']"
    by (simp add: partTree_def listing_def)
  have h3: "ReadDir partTree ''/locked'' = Inl (Err ''file does not exist'')"
    by (simp add: partTree_def listing_def)
  have v: "map_option (directoriesWithImages \<circ> snd) (listFoldersRecursively 3 partTree ''/'' [] initialWorld)
             = Some [''/a'', ''/b'', ''/b/deep'']"
    by code_simp
  from index_despite_failed_listings [OF h1 h2, of "[]" initialWorld] obtain w' where
    a: "\<forall>n\<ge>3. listFoldersRecursively n partTree ''/'' [] initialWorld = Some (None, w')" and
    b: "set (directoriesWithImages w')
          = set (directoriesWithImages initialWorld) \<union> {p \<in> dirs partTree ''/''. holdsImage partTree p}"
    by blast
  from a have "listFoldersRecursively 3 partTree ''/'' [] initialWorld = Some (None, w')" by simp
  with v have "directoriesWithImages w' = [''/a'', ''/b'', ''/b/deep'']" by simp
  with a b h1 h2 h3 show ?thesis by blast
qed

text \<open>
  C9. When the listing of the root of the walk fails, \<open>listFoldersRecursively\<close> returns
  that error at once: the index and the output are as they were and the one request
  sent to the remote side is the listing of the root. Started by \<open>main\<close> on \<open>/\<close>, the
  index stays empty, and \<open>main\<close> reports the error and zero directories.
\<close>

theorem root_listing_failure:
  assumes "ReadDir client rootPath = Inl err"
  shows "listFoldersRecursively (Suc depth) client rootPath indent w
           = Some (Some err, w\<lparr>remoteOps := remoteOps w @ [OpReadDir rootPath]\<rparr>)
         \<and> (rootPath = ''/'' \<longrightarrow>
              main (Suc depth) client
                = Some \<lparr>directoriesWithImages = [],
                        stdout = [''Error listing folders: '' @ Error err @ newline,
                                  ''Found 0 directories with images'' @ newline],
                        remoteOps = [OpReadDir ''/'']\<rparr>)"
  using assms
  by (auto simp: walk_Suc main_def remoteCall_def initialWorld_def Printf_def digit_def)

theorem root_listing_failure_witness:
  "ReadDir deadTree ''/'' = Inl (Err ''connection lost'')
   \<and> listFoldersRecursively (Suc 0) deadTree ''/'' [] initialWorld
       = Some (Some (Err ''connection lost''),
               initialWorld\<lparr>remoteOps := remoteOps initialWorld @ [OpReadDir ''/'']\<rparr>)
   \<and> main (Suc 0) deadTree
       = Some \<lparr>directoriesWithImages = [],
               stdout = [''Error listing folders: '' @ Error (Err ''connection lost'') @ newline,
                         ''Found 0 directories with images'' @ newline],
               remoteOps = [OpReadDir ''/'']\<rparr>"
proof -
  have h: "ReadDir deadTree ''/'' = Inl (Err ''connection lost'')"
    by (simp add: deadTree_def)
  from root_listing_failure [OF h, of 0 "[]" initialWorld] h show ?thesis by simp
qed

section \<open>Properties of the request handler\<close>

text \<open>
  C3. With an empty index \<open>getRandomImage\<close> answers 404 with the JSON body
  \<open>{"error": "No directories with images found"}\<close> and leaves the state as it is: it
  sends no request to the remote side, and its result depends neither on the client
  nor on the random draws.
\<close>

theorem empty_index_not_found:
  assumes "directoriesWithImages w = []"
  shows "\<exists>c'. getRandomImage client r1 r2 w c = (w, c')
           \<and> Status c' = 404
           \<and> Body c' = JSONBody [(''error'', ''No directories with images found'')]
           \<and> remoteOps (fst (getRandomImage client r1 r2 w c)) = remoteOps w
           \<and> getRandomImage client' r1' r2' w c = getRandomImage client r1 r2 w c"
  using assms by (simp add: getRandomImage_def StatusNotFound_def)

theorem empty_index_not_found_witness:
  "directoriesWithImages initialWorld = []
   \<and> (\<exists>c'. getRandomImage specTree 5 7 initialWorld freshContext = (initialWorld, c')
          \<and> Status c' = 404
          \<and> Body c' = JSONBody [(''error'', ''No directories with images found'')]
          \<and> remoteOps (fst (getRandomImage specTree 5 7 initialWorld freshContext)) = remoteOps initialWorld
          \<and> getRandomImage deadTree 0 1 initialWorld freshContext
              = getRandomImage specTree 5 7 initialWorld freshContext)"
proof -
  have h: "directoriesWithImages initialWorld = []" by (simp add: initialWorld_def)
  from empty_index_not_found [OF h, of specTree 5 7 freshContext deadTree 0 1] h
  show ?thesis by blast
qed

text \<open>
  C4. With a non-empty index: when the listing of the chosen directory fails, the answer
  is 500 with the JSON body \<open>{"error": "Failed to read directory: " + detail}\<close>; when the
  listing succeeds and has no image file, it is 404 with a JSON body; when the chosen file
  cannot be opened or cannot be read, it is 500 with a JSON body that ends with the
  detail of the error. In each case the requests sent to the remote side are the one
  listing of the chosen directory and what follows it for the one chosen file: nothing is
  tried again, and no other directory is listed.
\<close>
theorem request_failures:
  assumes "directoriesWithImages w \<noteq> []"
  shows "(\<forall>err. ReadDir client (chosenDir w r1) = Inl err \<longrightarrow>
            (\<exists>c'. getRandomImage client r1 r2 w c
                     = (w\<lparr>remoteOps := remoteOps w @ [OpReadDir (chosenDir w r1)]\<rparr>, c')
                 \<and> Status c' = 500
                 \<and> Body c' = JSONBody [(''error'', ''Failed to read directory: '' @ Error err)]))
       \<and> (\<forall>entries. ReadDir client (chosenDir w r1) = Inr entries \<and> imageEntries entries = [] \<longrightarrow>
            (\<exists>c'. getRandomImage client r1 r2 w c
                     = (w\<lparr>remoteOps := remoteOps w @ [OpReadDir (chosenDir w r1)]\<rparr>, c')
                 \<and> Status c' = 404
                 \<and> Body c' = JSONBody [(''error'', ''No images found in selected directory'')]))
       \<and> (\<forall>entries err. ReadDir client (chosenDir w r1) = Inr entries \<and> imageEntries entries \<noteq> []
              \<and> Open client (Join (chosenDir w r1) (Name (chosenEntry entries r2))) = Inl err \<longrightarrow>
            (\<exists>c'. getRandomImage client r1 r2 w c
                     = (w\<lparr>remoteOps := remoteOps w @
                           [OpReadDir (chosenDir w r1),
                            OpOpen (Join (chosenDir w r1) (Name (chosenEntry entries r2)))]\<rparr>, c')
                 \<and> Status c' = 500
                 \<and> Body c' = JSONBody [(''error'', ''Failed to open image file: '' @ Error err)]))
       \<and> (\<forall>entries file err. ReadDir client (chosenDir w r1) = Inr entries \<and> imageEntries entries \<noteq> []
              \<and> Open client (Join (chosenDir w r1) (Name (chosenEntry entries r2))) = Inr file
              \<and> ReadAll file = Inl err \<longrightarrow>
            (\<exists>c'. getRandomImage client r1 r2 w c
                     = (w\<lparr>remoteOps := remoteOps w @
                           [OpReadDir (chosenDir w r1),
                            OpOpen (Join (chosenDir w r1) (Name (chosenEntry entries r2))),
                            OpReadAll (Join (chosenDir w r1) (Name (chosenEntry entries r2))),
                            OpClose (Join (chosenDir w r1) (Name (chosenEntry entries r2)))]\<rparr>, c')
                 \<and> Status c' = 500
                 \<and> Body c' = JSONBody [(''error'', ''Failed to read image file: '' @ Error err)]))"
proof (intro conjI allI impI)
  fix err assume "ReadDir client (chosenDir w r1) = Inl err"
  with assms show "\<exists>c'. getRandomImage client r1 r2 w c
                     = (w\<lparr>remoteOps := remoteOps w @ [OpReadDir (chosenDir w r1)]\<rparr>, c')
                 \<and> Status c' = 500
                 \<and> Body c' = JSONBody [(''error'', ''Failed to read directory: '' @ Error err)]"
    by (simp add: getRandomImage_def chosenDir_def remoteCall_def StatusInternalServerError_def)
next
  fix entries assume "ReadDir client (chosenDir w r1) = Inr entries \<and> imageEntries entries = []"
  with assms show "\<exists>c'. getRandomImage client r1 r2 w c
                     = (w\<lparr>remoteOps := remoteOps w @ [OpReadDir (chosenDir w r1)]\<rparr>, c')
                 \<and> Status c' = 404
                 \<and> Body c' = JSONBody [(''error'', ''No images found in selected directory'')]"
    by (simp add: getRandomImage_def chosenDir_def remoteCall_def StatusNotFound_def
          collectImages_entries)
next
  fix entries err
  assume "ReadDir client (chosenDir w r1) = Inr entries \<and> imageEntries entries \<noteq> []
              \<and> Open client (Join (chosenDir w r1) (Name (chosenEntry entries r2))) = Inl err"
  then show "\<exists>c'. getRandomImage client r1 r2 w c
                     = (w\<lparr>remoteOps := remoteOps w @
                           [OpReadDir (chosenDir w r1),
                            OpOpen (Join (chosenDir w r1) (Name (chosenEntry entries r2)))]\<rparr>, c')
                 \<and> Status c' = 500
                 \<and> Body c' = JSONBody [(''error'', ''Failed to open image file: '' @ Error err)]"
    using handler_listed [OF assms, of client r1 entries r2 c]
    by (simp add: remoteCall_def StatusInternalServerError_def Let_def)
next
  fix entries opened err
  assume "ReadDir client (chosenDir w r1) = Inr entries \<and> imageEntries entries \<noteq> []
              \<and> Open client (Join (chosenDir w r1) (Name (chosenEntry entries r2))) = Inr opened
              \<and> ReadAll opened = Inl err"
  then show "\<exists>c'. getRandomImage client r1 r2 w c
                     = (w\<lparr>remoteOps := remoteOps w @
                           [OpReadDir (chosenDir w r1),
                            OpOpen (Join (chosenDir w r1) (Name (chosenEntry entries r2))),
                            OpReadAll (Join (chosenDir w r1) (Name (chosenEntry entries r2))),
                            OpClose (Join (chosenDir w r1) (Name (chosenEntry entries r2)))]\<rparr>, c')
                 \<and> Status c' = 500
                 \<and> Body c' = JSONBody [(''error'', ''Failed to read image file: '' @ Error err)]"
    using handler_listed [OF assms, of client r1 entries r2 c]
    by (simp add: remoteCall_def StatusInternalServerError_def Let_def)
qed

theorem request_failures_witness:
  "directoriesWithImages shelfWorld \<noteq> []
   \<and> ReadDir shelf (chosenDir shelfWorld 0) = Inl (Err ''file does not exist'')
   \<and> (\<exists>c'. getRandomImage shelf 0 0 shelfWorld freshContext
              = (shelfWorld\<lparr>remoteOps := remoteOps shelfWorld @ [OpReadDir (chosenDir shelfWorld 0)]\<rparr>, c')
          \<and> Status c' = 500
          \<and> Body c' = JSONBody [(''error'', ''Failed to read directory: '' @ Error (Err ''file does not exist''))])
   \<and> ReadDir shelf (chosenDir shelfWorld 1) = Inr [fileEntry ''notes.txt'', dirEntry ''sub'']
   \<and> imageEntries [fileEntry ''notes.txt'', dirEntry ''sub''] = []
   \<and> (\<exists>c'. getRandomImage shelf 1 0 shelfWorld freshContext
              = (shelfWorld\<lparr>remoteOps := remoteOps shelfWorld @ [OpReadDir (chosenDir shelfWorld 1)]\<rparr>, c')
          \<and> Status c' = 404
          \<and> Body c' = JSONBody [(''error'', ''No images found in selected directory'')])
   \<and> Open shelf (Join (chosenDir shelfWorld 2) (Name (chosenEntry [fileEntry ''a.png''] 0)))
       = Inl (Err ''permission denied'')
   \<and> (\<exists>c'. getRandomImage shelf 2 0 shelfWorld freshContext
              = (shelfWorld\<lparr>remoteOps := remoteOps shelfWorld @
                    [OpReadDir (chosenDir shelfWorld 2),
                     OpOpen (Join (chosenDir shelfWorld 2) (Name (chosenEntry [fileEntry ''a.png''] 0)))]\<rparr>, c')
          \<and> Status c' = 500
          \<and> Body c' = JSONBody [(''error'', ''Failed to open image file: '' @ Error (Err ''permission denied''))])
   \<and> Open shelf (Join (chosenDir shelfWorld 3) (Name (chosenEntry [fileEntry ''b.gif''] 0)))
       = Inr (File (Inl (Err ''connection lost'')))
   \<and> (\<exists>c'. getRandomImage shelf 3 0 shelfWorld freshContext
              = (shelfWorld\<lparr>remoteOps := remoteOps shelfWorld @
                    [OpReadDir (chosenDir shelfWorld 3),
                     OpOpen (Join (chosenDir shelfWorld 3) (Name (chosenEntry [fileEntry ''b.gif''] 0))),
                     OpReadAll (Join (chosenDir shelfWorld 3) (Name (chosenEntry [fileEntry ''b.gif''] 0))),
                     OpClose (Join (chosenDir shelfWorld 3) (Name (chosenEntry [fileEntry ''b.gif''] 0)))]\<rparr>, c')
          \<and> Status c' = 500
          \<and> Body c' = JSONBody [(''error'', ''Failed to read image file: '' @ Error (Err ''connection lost''))])"
proof -
  have ne: "directoriesWithImages shelfWorld \<noteq> []" by (simp add: shelfWorld_def)
  have l0: "ReadDir shelf (chosenDir shelfWorld 0) = Inl (Err ''file does not exist'')"
    by code_simp
  have l1: "ReadDir shelf (chosenDir shelfWorld 1) = Inr [fileEntry ''notes.txt'', dirEntry ''sub'']"
    by code_simp
  have i1: "imageEntries [fileEntry ''notes.txt'', dirEntry ''sub''] = []"
    by code_simp
  have l2: "ReadDir shelf (chosenDir shelfWorld 2) = Inr [fileEntry ''a.png'']"
    by code_simp
  have i2: "imageEntries [fileEntry ''a.png''] \<noteq> []"
    by code_simp
  have o2: "Open shelf (Join (chosenDir shelfWorld 2) (Name (chosenEntry [fileEntry ''a.png''] 0)))
              = Inl (Err ''permission denied'')"
    by code_simp
  have l3: "ReadDir shelf (chosenDir shelfWorld 3) = Inr [fileEntry ''b.gif'']"
    by code_simp
  have i3: "imageEntries [fileEntry ''b.gif''] \<noteq> []"
    by code_simp
  have o3: "Open shelf (Join (chosenDir shelfWorld 3) (Name (chosenEntry [fileEntry ''b.gif''] 0)))
              = Inr (File (Inl (Err ''connection lost'')))"
    by code_simp
  have r3: "ReadAll (File (Inl (Err ''connection lost''))) = Inl (Err ''connection lost'')"
    by simp
  from request_failures [OF ne, of shelf 0 0 freshContext] l0
  have c0: "\<exists>c'. getRandomImage shelf 0 0 shelfWorld freshContext
              = (shelfWorld\<lparr>remoteOps := remoteOps shelfWorld @ [OpReadDir (chosenDir shelfWorld 0)]\<rparr>, c')
          \<and> Status c' = 500
          \<and> Body c' = JSONBody [(''error'', ''Failed to read directory: '' @ Error (Err ''file does not exist''))]"
    by blast
  from request_failures [OF ne, of shelf 1 0 freshContext] l1 i1
  have c1: "\<exists>c'. getRandomImage shelf 1 0 shelfWorld freshContext
              = (shelfWorld\<lparr>remoteOps := remoteOps shelfWorld @ [OpReadDir (chosenDir shelfWorld 1)]\<rparr>, c')
          \<and> Status c' = 404
          \<and> Body c' = JSONBody [(''error'', ''No images found in selected directory'')]"
    by blast
  from request_failures [OF ne, of shelf 2 0 freshContext] l2 i2 o2
  have c2: "\<exists>c'. getRandomImage shelf 2 0 shelfWorld freshContext
              = (shelfWorld\<lparr>remoteOps := remoteOps shelfWorld @
                    [OpReadDir (chosenDir shelfWorld 2),
                     OpOpen (Join (chosenDir shelfWorld 2) (Name (chosenEntry [fileEntry ''a.png''] 0)))]\<rparr>, c')
          \<and> Status c' = 500
          \<and> Body c' = JSONBody [(''error'', ''Failed to open image file: '' @ Error (Err ''permission denied''))]"
    by blast
  from request_failures [OF ne, of shelf 3 0 freshContext] l3 i3 o3 r3
  have c3: "\<exists>c'. getRandomImage shelf 3 0 shelfWorld freshContext
              = (shelfWorld\<lparr>remoteOps := remoteOps shelfWorld @
                    [OpReadDir (chosenDir shelfWorld 3),
                     OpOpen (Join (chosenDir shelfWorld 3) (Name (chosenEntry [fileEntry ''b.gif''] 0))),
                     OpReadAll (Join (chosenDir shelfWorld 3) (Name (chosenEntry [fileEntry ''b.gif''] 0))),
                     OpClose (Join (chosenDir shelfWorld 3) (Name (chosenEntry [fileEntry ''b.gif''] 0)))]\<rparr>, c')
          \<and> Status c' = 500
          \<and> Body c' = JSONBody [(''error'', ''Failed to read image file: '' @ Error (Err ''connection lost''))]"
    by blast
  from ne l0 c0 l1 i1 c1 o2 c2 o3 c3 show ?thesis by blast
qed



end
